theory Spec2Isabelle
  imports Main "HOL-Library.Word"
begin

section \<open>Package management: the Service Management API client\<close>

subsection \<open>Values of the Go runtime and standard library\<close>

type_synonym byte = "8 word"

text \<open>
  Go's \<open>error\<close> interface. A nil error is \<open>None\<close> of \<open>error option\<close>.
  \<open>errors_New\<close> is a value made by \<open>errors.New(text)\<close>; \<open>tls_error\<close> is an error
  handed back by \<open>crypto/tls\<close>, kept with its message.
\<close>

datatype error = errors_New string | tls_error string

text \<open>\<open>time.Duration\<close> is an \<open>int64\<close> count of nanoseconds; comparisons are signed.\<close>

type_synonym time_Duration = "64 word"

definition time_Second :: time_Duration where
  "time_Second = 1000000000"

text \<open>\<open>tls.Certificate\<close>: the certificate chain and the private key, as byte material.\<close>

record tls_Certificate =
  Certificate :: "byte list list"
  PrivateKey :: "byte list"

record tls_Config =
  Certificates :: "tls_Certificate list"

datatype proxy_func = http_ProxyFromEnvironment

text \<open>
  \<open>http.Transport\<close>, with the two fields the package touches. Transports live in the
  store and are referred to by address, since \<open>makeClient\<close> writes through the pointer.
\<close>

record http_Transport =
  Proxy :: "proxy_func option"
  TLSClientConfig :: "tls_Config option"

text \<open>
  The interface value \<open>http.RoundTripper\<close> held by \<open>http.Client.Transport\<close>: nil, a
  \<open>*http.Transport\<close>, or a value of some other dynamic type, given by the names of the
  methods of that type and an identity. A \<open>*http.Transport\<close> is an address in the store
  (\<open>Some a\<close>) or the nil pointer of that type (\<open>None\<close>): an interface holding a typed nil
  pointer is not the nil interface, and a type switch matches it by its type.
\<close>

datatype round_tripper =
  RT_nil
  | RT_http_Transport "nat option"
  | RT_other (method_set: "string list") (ident: nat)

record http_Client =
  Transport :: round_tripper

text \<open>
  A \<open>*http.Client\<close>: the process-wide \<open>http.DefaultClient\<close>, or a client allocated at
  an address.
\<close>

datatype http_Client_ptr = http_DefaultClient | http_Client_at nat

text \<open>
  The store: the \<open>http.Client\<close> and \<open>http.Transport\<close> objects, with the next free
  address of each kind. Go has no dangling pointers, so every address holds an object.
\<close>

record heap =
  http_Clients :: "http_Client_ptr \<Rightarrow> http_Client"
  http_Clients_next :: nat
  http_Transports :: "nat \<Rightarrow> http_Transport"
  http_Transports_next :: nat

definition empty_heap :: heap where
  "empty_heap =
     \<lparr>http_Clients = (\<lambda>_. \<lparr>Transport = RT_nil\<rparr>), http_Clients_next = 0,
      http_Transports = (\<lambda>_. \<lparr>Proxy = None, TLSClientConfig = None\<rparr>),
      http_Transports_next = 0\<rparr>"

text \<open>\<open>&http.Transport{...}\<close> and \<open>&http.Client{...}\<close>: allocation at the next free address.\<close>

definition new_http_Transport :: "http_Transport \<Rightarrow> heap \<Rightarrow> nat \<times> heap" where
  "new_http_Transport t h =
     (http_Transports_next h,
      h\<lparr>http_Transports := (http_Transports h)(http_Transports_next h := t),
        http_Transports_next := Suc (http_Transports_next h)\<rparr>)"

definition new_http_Client :: "http_Client \<Rightarrow> heap \<Rightarrow> http_Client_ptr \<times> heap" where
  "new_http_Client c h =
     (http_Client_at (http_Clients_next h),
      h\<lparr>http_Clients := (http_Clients h)(http_Client_at (http_Clients_next h) := c),
        http_Clients_next := Suc (http_Clients_next h)\<rparr>)"

text \<open>A run-time panic: the call does not return to its caller.\<close>

datatype panic = nil_pointer_dereference

subsection \<open>Constants and types of the package\<close>

definition DefaultAzureManagementURL :: string where
  "DefaultAzureManagementURL = ''https://management.core.windows.net''"

definition DefaultOperationPollInterval :: time_Duration where
  "DefaultOperationPollInterval = time_Second * 30"

definition DefaultAPIVersion :: string where
  "DefaultAPIVersion = ''2014-10-01''"

definition DefaultUserAgent :: string where
  "DefaultUserAgent = ''azure-sdk-for-go''"

text \<open>
  \<open>publishSettings\<close> is declared elsewhere in the package; these are the three fields
  \<open>makeClient\<close> fills in.
\<close>

record publishSettings =
  SubscriptionID :: string
  SubscriptionCert :: "byte list"
  SubscriptionKey :: "byte list"

record ClientConfig =
  ManagementURL :: string
  OperationPollInterval :: time_Duration
  UserAgent :: string
  APIVersion :: string
  Client :: "http_Client_ptr option"

text \<open>The struct \<open>client\<close>; a nil \<open>*http.Client\<close> is \<open>None\<close>.\<close>

record client =
  publishSettings :: publishSettings
  config :: ClientConfig
  client :: "http_Client_ptr option"

subsection \<open>Constructors\<close>

text \<open>\<open>NewAnonymousClient\<close>: every field but \<open>client\<close> keeps its zero value.\<close>

definition NewAnonymousClient :: client where
  "NewAnonymousClient =
     \<lparr>publishSettings = \<lparr>SubscriptionID = [], SubscriptionCert = [], SubscriptionKey = []\<rparr>,
      config = \<lparr>ManagementURL = [], OperationPollInterval = 0, UserAgent = [],
                APIVersion = [], Client = None\<rparr>,
      client = Some http_DefaultClient\<rparr>"

definition DefaultConfig :: ClientConfig where
  "DefaultConfig =
     \<lparr>ManagementURL = DefaultAzureManagementURL,
      OperationPollInterval = DefaultOperationPollInterval,
      UserAgent = DefaultUserAgent,
      APIVersion = DefaultAPIVersion,
      Client = None\<rparr>"

text \<open>
  The type switch over \<open>c.Transport\<close> at the end of \<open>makeClient\<close>. Only the
  \<open>*http.Transport\<close> case has a body: the assignment to \<open>t.TLSClientConfig\<close>, which
  writes through the pointer and panics when the pointer is nil. The \<open>http.Flusher\<close>
  case holds nothing but a comment, and a nil interface value matches no case.
\<close>

definition installCert :: "tls_Certificate \<Rightarrow> round_tripper \<Rightarrow> heap \<Rightarrow> panic + heap" where
  "installCert cert t h =
     (case t of
        RT_http_Transport None \<Rightarrow> Inl nil_pointer_dereference
      | RT_http_Transport (Some a) \<Rightarrow>
          Inr (h\<lparr>http_Transports :=
                 (http_Transports h)
                   (a := (http_Transports h a)
                      \<lparr>TLSClientConfig := Some \<lparr>Certificates = [cert]\<rparr>\<rparr>)\<rparr>)
      | RT_other ms i \<Rightarrow> (if ''Flush'' \<in> set ms then Inr h else Inr h)
      | RT_nil \<Rightarrow> Inr h)"

text \<open>
  \<open>makeClient\<close>. \<open>X509KeyPair\<close> stands for \<open>tls.X509KeyPair\<close> of the standard library;
  \<open>cfg\<close> is the parameter \<open>config\<close> and \<open>cfg'\<close> its value after the switch. A call that
  returns gives \<open>Inr\<close> of Go's pair (client, error) together with the store after the
  call; a call that panics gives \<open>Inl\<close> of the panic.
\<close>

definition makeClient ::
  "(byte list \<Rightarrow> byte list \<Rightarrow> tls_Certificate \<times> error option) \<Rightarrow>
   string \<Rightarrow> byte list \<Rightarrow> ClientConfig \<Rightarrow> heap
     \<Rightarrow> panic + (client option \<times> error option) \<times> heap" where
  "makeClient X509KeyPair subscriptionID managementCert cfg h =
     (if subscriptionID = [] then
        Inr ((None, Some (errors_New ''azure: subscription ID required'')), h)
      else if length managementCert = 0 then
        Inr ((None, Some (errors_New ''azure: management certificate required'')), h)
      else
        let ps = \<lparr>SubscriptionID = subscriptionID,
                  SubscriptionCert = managementCert,
                  SubscriptionKey = managementCert\<rparr>
        in
        if ManagementURL cfg = [] then
          Inr ((None, Some (errors_New ''azure: base URL required'')), h)
        else if sint (OperationPollInterval cfg) \<le> 0 then
          Inr ((None, Some (errors_New
              ''azure: operation polling interval must be a positive duration'')), h)
        else if APIVersion cfg = [] then
          Inr ((None, Some (errors_New
              ''azure: client configuration must specify an API version'')), h)
        else
          let cfg' = (if UserAgent cfg = []
                      then cfg\<lparr>UserAgent := DefaultUserAgent\<rparr> else cfg)
          in
          (case X509KeyPair (SubscriptionCert ps) (SubscriptionKey ps) of
             (cert, Some err) \<Rightarrow> Inr ((None, Some err), h)
           | (cert, None) \<Rightarrow>
               let (c, h1) =
                     (case Client cfg' of
                        Some p \<Rightarrow> (p, h)
                      | None \<Rightarrow>
                          let (t, h') = new_http_Transport
                                 \<lparr>Proxy = Some http_ProxyFromEnvironment,
                                  TLSClientConfig = None\<rparr> h
                          in new_http_Client \<lparr>Transport = RT_http_Transport (Some t)\<rparr> h')
               in
               (case installCert cert (Transport (http_Clients h1 c)) h1 of
                  Inl pn \<Rightarrow> Inl pn
                | Inr h2 \<Rightarrow>
                    Inr ((Some \<lparr>publishSettings = ps, config = cfg', client = Some c\<rparr>,
                          None), h2))))"

definition NewClientFromConfig ::
  "(byte list \<Rightarrow> byte list \<Rightarrow> tls_Certificate \<times> error option) \<Rightarrow>
   string \<Rightarrow> byte list \<Rightarrow> ClientConfig \<Rightarrow> heap
     \<Rightarrow> panic + (client option \<times> error option) \<times> heap" where
  "NewClientFromConfig X509KeyPair subscriptionID managementCert cfg h =
     makeClient X509KeyPair subscriptionID managementCert cfg h"

definition NewClient ::
  "(byte list \<Rightarrow> byte list \<Rightarrow> tls_Certificate \<times> error option) \<Rightarrow>
   string \<Rightarrow> byte list \<Rightarrow> heap \<Rightarrow> panic + (client option \<times> error option) \<times> heap" where
  "NewClient X509KeyPair subscriptionID managementCert h =
     NewClientFromConfig X509KeyPair subscriptionID managementCert DefaultConfig h"

subsection \<open>Waiting for a long-running operation\<close>

type_synonym OperationID = string

text \<open>
  Modelled from the spec: the sources hold only the declaration of \<open>WaitForOperation\<close>
  and \<open>GetOperationStatus\<close> in the interface \<open>Client\<close>; the method bodies are missing.
  What follows is the poll loop of the specification (section 4.3), with its states
  Polling, Succeeded, Failed, Cancelled and PollError.

  An operation status is one of three; a failed one carries the remote code and message.
\<close>

datatype OperationStatus =
  InProgress | Succeeded | Failed (failure_code: string) (failure_message: string)

text \<open>
  Modelled from the spec: the errors \<open>WaitForOperation\<close> ends with. \<open>OperationFailed\<close>
  wraps the failure detail of a Failed status, \<open>Cancelled\<close> is the distinct error of a
  fired cancellation signal, \<open>PollError\<close> holds the error of a status query that could
  not determine the state.
\<close>

datatype 'e wait_error = OperationFailed string string | Cancelled | PollError 'e

text \<open>
  Modelled from the spec: the two suspension points of a round. A status query either
  returns (a status, or an error of the query itself) or loses the race against the
  cancellation signal; the wait for the poll interval either elapses or loses that race.
\<close>

datatype 'e query_outcome = Returned "'e + OperationStatus" | SignalDuringQuery

datatype interval_outcome = IntervalElapsed | SignalDuringInterval

text \<open>
  Modelled from the spec: the loop, started in state Polling at round \<open>n\<close>. The \<open>k\<close>-th
  status query yields \<open>query k\<close>, the \<open>k\<close>-th interval wait yields \<open>cancel k\<close>, both
  counted from 0. The result is the returned error (\<open>None\<close> for success) and the number
  of status queries issued since round 0. The loop has no bound of its own, so not
  returning is the value \<open>None\<close>.
\<close>

partial_function (option) pollLoop ::
  "(nat \<Rightarrow> 'e query_outcome) \<Rightarrow> (nat \<Rightarrow> interval_outcome) \<Rightarrow> nat
     \<Rightarrow> ('e wait_error option \<times> nat) option" where
  "pollLoop query cancel n =
     (case query n of
        SignalDuringQuery \<Rightarrow> Some (Some Cancelled, Suc n)
      | Returned (Inl e) \<Rightarrow> Some (Some (PollError e), Suc n)
      | Returned (Inr Succeeded) \<Rightarrow> Some (None, Suc n)
      | Returned (Inr (Failed code msg)) \<Rightarrow> Some (Some (OperationFailed code msg), Suc n)
      | Returned (Inr InProgress) \<Rightarrow>
          (case cancel n of
             SignalDuringInterval \<Rightarrow> Some (Some Cancelled, Suc n)
           | IntervalElapsed \<Rightarrow> pollLoop query cancel (Suc n)))"

text \<open>
  Modelled from the spec: \<open>WaitForOperation(operationID, cancelSignal)\<close> enters Polling
  at once. \<open>GetOperationStatus operationID k\<close> is the outcome of the \<open>k\<close>-th status query
  for the operation.
\<close>

definition WaitForOperation ::
  "(OperationID \<Rightarrow> nat \<Rightarrow> 'e query_outcome) \<Rightarrow> OperationID \<Rightarrow> (nat \<Rightarrow> interval_outcome)
     \<Rightarrow> ('e wait_error option \<times> nat) option" where
  "WaitForOperation GetOperationStatus operationID cancel =
     pollLoop (GetOperationStatus operationID) cancel 0"

section \<open>Package logic: the WorkflowRuns client\<close>

subsection \<open>The autorest library, as the package uses it\<close>

text \<open>A value stored in a \<open>map[string]interface{}\<close>: a string, or a \<open>*int\<close>.\<close>

datatype param_value = String_value string | IntPtr_value int

text \<open>
  The decorators handed to \<open>autorest.Prepare\<close> and \<open>autorest.Respond\<close>. A Go map has no
  order; its entries are listed in the order the source writes them.
\<close>

datatype prepare_decorator =
  AsJSON | AsPost | AsGet
  | WithBaseURL string
  | WithPath string
  | WithPathParameters "(string \<times> param_value) list"
  | WithQueryParameters "(string \<times> param_value) list"

datatype respond_decorator =
  ByInspecting
  | WithErrorUnlessStatusCode "nat list"
  | ByUnmarshallingJSON
  | ByClosing

definition http_StatusOK :: nat where
  "http_StatusOK = 200"

text \<open>
  What the package calls but does not define: \<open>autorest.Prepare\<close>, the client's \<open>Send\<close>,
  \<open>autorest.Respond\<close> (with the value \<open>ByUnmarshallingJSON\<close> stored in its target, if
  any), \<open>autorest.NewErrorWithError\<close> (whose result is never nil), \<open>url.QueryEscape\<close>
  and the package constant \<open>APIVersion\<close>, here \<open>logic_APIVersion\<close>. A nil pointer and a
  nil error are \<open>None\<close>.
\<close>

record ('req, 'resp, 'v, 'err) autorest =
  Prepare :: "prepare_decorator list \<Rightarrow> 'req option \<times> 'err option"
  Send :: "'req option \<Rightarrow> nat list \<Rightarrow> 'resp option \<times> 'err option"
  Respond :: "'resp option \<Rightarrow> respond_decorator list \<Rightarrow> 'v option \<times> 'err option"
  NewErrorWithError :: "'err \<Rightarrow> string \<Rightarrow> string \<Rightarrow> string \<Rightarrow> 'err"
  QueryEscape :: "string \<Rightarrow> string"
  logic_APIVersion :: string

text \<open>\<open>autorest.Response\<close>, and the result structs that embed it.\<close>

record 'resp autorest_Response =
  Response :: "'resp option"

record ('resp, 'v) WorkflowRun = "'resp autorest_Response" +
  WorkflowRun_fields :: "'v option"

record ('resp, 'v) WorkflowRunListResult = "'resp autorest_Response" +
  WorkflowRunListResult_fields :: "'v option"

text \<open>
  \<open>WorkflowRunsClient\<close> embeds \<open>ManagementClient\<close>; these are the fields it reads
  (\<open>SubscriptionID\<close> is \<open>logic_SubscriptionID\<close> here). In the methods below \<open>cl\<close> is the
  receiver \<open>client\<close> and \<open>ax\<close> the library.
\<close>

record WorkflowRunsClient =
  BaseURI :: string
  logic_SubscriptionID :: string

subsection \<open>Cancel\<close>

definition CancelPreparer ::
  "('req, 'resp, 'v, 'err) autorest \<Rightarrow> WorkflowRunsClient \<Rightarrow> string \<Rightarrow> string \<Rightarrow> string
     \<Rightarrow> 'req option \<times> 'err option" where
  "CancelPreparer ax cl resourceGroupName workflowName runName =
     (let pathParameters =
            [(''resourceGroupName'', String_value (QueryEscape ax resourceGroupName)),
             (''runName'', String_value (QueryEscape ax runName)),
             (''subscriptionId'', String_value (QueryEscape ax (logic_SubscriptionID cl))),
             (''workflowName'', String_value (QueryEscape ax workflowName))];
          queryParameters = [(''api-version'', String_value (logic_APIVersion ax))]
      in Prepare ax
           [AsJSON, AsPost, WithBaseURL (BaseURI cl),
            WithPath ''/subscriptions/{subscriptionId}/resourceGroups/{resourceGroupName}/providers/Microsoft.Logic/workflows/{workflowName}/runs/{runName}/cancel'',
            WithPathParameters pathParameters,
            WithQueryParameters queryParameters])"

definition CancelSender ::
  "('req, 'resp, 'v, 'err) autorest \<Rightarrow> WorkflowRunsClient \<Rightarrow> 'req option
     \<Rightarrow> 'resp option \<times> 'err option" where
  "CancelSender ax cl req = Send ax req [http_StatusOK]"

definition CancelResponder ::
  "('req, 'resp, 'v, 'err) autorest \<Rightarrow> WorkflowRunsClient \<Rightarrow> 'resp option
     \<Rightarrow> 'resp autorest_Response \<times> 'err option" where
  "CancelResponder ax cl resp =
     (let err = snd (Respond ax resp
                  [ByInspecting, WithErrorUnlessStatusCode [http_StatusOK], ByClosing])
      in (\<lparr>Response = resp\<rparr>, err))"

definition WorkflowRunsClient_Cancel ::
  "('req, 'resp, 'v, 'err) autorest \<Rightarrow> WorkflowRunsClient \<Rightarrow> string \<Rightarrow> string \<Rightarrow> string
     \<Rightarrow> 'resp autorest_Response \<times> 'err option" where
  "WorkflowRunsClient_Cancel ax cl resourceGroupName workflowName runName =
     (case CancelPreparer ax cl resourceGroupName workflowName runName of
        (req, Some err) \<Rightarrow>
          (\<lparr>Response = None\<rparr>,
           Some (NewErrorWithError ax err ''logic/WorkflowRunsClient'' ''Cancel''
                   ''Failure preparing request''))
      | (req, None) \<Rightarrow>
          (case CancelSender ax cl req of
             (resp, Some err) \<Rightarrow>
               (\<lparr>Response = resp\<rparr>,
                Some (NewErrorWithError ax err ''logic/WorkflowRunsClient'' ''Cancel''
                        ''Failure sending request''))
           | (resp, None) \<Rightarrow>
               (case CancelResponder ax cl resp of
                  (result, Some err) \<Rightarrow>
                    (result,
                     Some (NewErrorWithError ax err ''logic/WorkflowRunsClient'' ''Cancel''
                             ''Failure responding to request''))
                | (result, None) \<Rightarrow> (result, None))))"

subsection \<open>Get\<close>

definition GetPreparer ::
  "('req, 'resp, 'v, 'err) autorest \<Rightarrow> WorkflowRunsClient \<Rightarrow> string \<Rightarrow> string \<Rightarrow> string
     \<Rightarrow> 'req option \<times> 'err option" where
  "GetPreparer ax cl resourceGroupName workflowName runName =
     (let pathParameters =
            [(''resourceGroupName'', String_value (QueryEscape ax resourceGroupName)),
             (''runName'', String_value (QueryEscape ax runName)),
             (''subscriptionId'', String_value (QueryEscape ax (logic_SubscriptionID cl))),
             (''workflowName'', String_value (QueryEscape ax workflowName))];
          queryParameters = [(''api-version'', String_value (logic_APIVersion ax))]
      in Prepare ax
           [AsJSON, AsGet, WithBaseURL (BaseURI cl),
            WithPath ''/subscriptions/{subscriptionId}/resourceGroups/{resourceGroupName}/providers/Microsoft.Logic/workflows/{workflowName}/runs/{runName}'',
            WithPathParameters pathParameters,
            WithQueryParameters queryParameters])"

definition GetSender ::
  "('req, 'resp, 'v, 'err) autorest \<Rightarrow> WorkflowRunsClient \<Rightarrow> 'req option
     \<Rightarrow> 'resp option \<times> 'err option" where
  "GetSender ax cl req = Send ax req [http_StatusOK]"

definition GetResponder ::
  "('req, 'resp, 'v, 'err) autorest \<Rightarrow> WorkflowRunsClient \<Rightarrow> 'resp option
     \<Rightarrow> ('resp, 'v) WorkflowRun \<times> 'err option" where
  "GetResponder ax cl resp =
     (let (decoded, err) =
            Respond ax resp
              [ByInspecting, WithErrorUnlessStatusCode [http_StatusOK],
               ByUnmarshallingJSON, ByClosing]
      in (\<lparr>Response = resp, WorkflowRun_fields = decoded\<rparr>, err))"

definition WorkflowRunsClient_Get ::
  "('req, 'resp, 'v, 'err) autorest \<Rightarrow> WorkflowRunsClient \<Rightarrow> string \<Rightarrow> string \<Rightarrow> string
     \<Rightarrow> ('resp, 'v) WorkflowRun \<times> 'err option" where
  "WorkflowRunsClient_Get ax cl resourceGroupName workflowName runName =
     (case GetPreparer ax cl resourceGroupName workflowName runName of
        (req, Some err) \<Rightarrow>
          (\<lparr>Response = None, WorkflowRun_fields = None\<rparr>,
           Some (NewErrorWithError ax err ''logic/WorkflowRunsClient'' ''Get''
                   ''Failure preparing request''))
      | (req, None) \<Rightarrow>
          (case GetSender ax cl req of
             (resp, Some err) \<Rightarrow>
               (\<lparr>Response = resp, WorkflowRun_fields = None\<rparr>,
                Some (NewErrorWithError ax err ''logic/WorkflowRunsClient'' ''Get''
                        ''Failure sending request''))
           | (resp, None) \<Rightarrow>
               (case GetResponder ax cl resp of
                  (result, Some err) \<Rightarrow>
                    (result,
                     Some (NewErrorWithError ax err ''logic/WorkflowRunsClient'' ''Get''
                             ''Failure responding to request''))
                | (result, None) \<Rightarrow> (result, None))))"

subsection \<open>List\<close>

text \<open>The parameters \<open>top\<close> and \<open>filter\<close> are \<open>top_ptr\<close> and \<open>filter_arg\<close> here.\<close>

definition ListPreparer ::
  "('req, 'resp, 'v, 'err) autorest \<Rightarrow> WorkflowRunsClient \<Rightarrow> string \<Rightarrow> string \<Rightarrow> int option
     \<Rightarrow> string \<Rightarrow> 'req option \<times> 'err option" where
  "ListPreparer ax cl resourceGroupName workflowName top_ptr filter_arg =
     (let pathParameters =
            [(''resourceGroupName'', String_value (QueryEscape ax resourceGroupName)),
             (''subscriptionId'', String_value (QueryEscape ax (logic_SubscriptionID cl))),
             (''workflowName'', String_value (QueryEscape ax workflowName))];
          queryParameters = [(''api-version'', String_value (logic_APIVersion ax))];
          queryParameters = (case top_ptr of
                               Some n \<Rightarrow> queryParameters @ [(''$top'', IntPtr_value n)]
                             | None \<Rightarrow> queryParameters);
          queryParameters = (if length filter_arg > 0
                             then queryParameters @ [(''$filter'', String_value filter_arg)]
                             else queryParameters)
      in Prepare ax
           [AsJSON, AsGet, WithBaseURL (BaseURI cl),
            WithPath ''/subscriptions/{subscriptionId}/resourceGroups/{resourceGroupName}/providers/Microsoft.Logic/workflows/{workflowName}/runs'',
            WithPathParameters pathParameters,
            WithQueryParameters queryParameters])"

definition ListSender ::
  "('req, 'resp, 'v, 'err) autorest \<Rightarrow> WorkflowRunsClient \<Rightarrow> 'req option
     \<Rightarrow> 'resp option \<times> 'err option" where
  "ListSender ax cl req = Send ax req [http_StatusOK]"

definition ListResponder ::
  "('req, 'resp, 'v, 'err) autorest \<Rightarrow> WorkflowRunsClient \<Rightarrow> 'resp option
     \<Rightarrow> ('resp, 'v) WorkflowRunListResult \<times> 'err option" where
  "ListResponder ax cl resp =
     (let (decoded, err) =
            Respond ax resp
              [ByInspecting, WithErrorUnlessStatusCode [http_StatusOK],
               ByUnmarshallingJSON, ByClosing]
      in (\<lparr>Response = resp, WorkflowRunListResult_fields = decoded\<rparr>, err))"

definition WorkflowRunsClient_List ::
  "('req, 'resp, 'v, 'err) autorest \<Rightarrow> WorkflowRunsClient \<Rightarrow> string \<Rightarrow> string \<Rightarrow> int option
     \<Rightarrow> string \<Rightarrow> ('resp, 'v) WorkflowRunListResult \<times> 'err option" where
  "WorkflowRunsClient_List ax cl resourceGroupName workflowName top_ptr filter_arg =
     (case ListPreparer ax cl resourceGroupName workflowName top_ptr filter_arg of
        (req, Some err) \<Rightarrow>
          (\<lparr>Response = None, WorkflowRunListResult_fields = None\<rparr>,
           Some (NewErrorWithError ax err ''logic/WorkflowRunsClient'' ''List''
                   ''Failure preparing request''))
      | (req, None) \<Rightarrow>
          (case ListSender ax cl req of
             (resp, Some err) \<Rightarrow>
               (\<lparr>Response = resp, WorkflowRunListResult_fields = None\<rparr>,
                Some (NewErrorWithError ax err ''logic/WorkflowRunsClient'' ''List''
                        ''Failure sending request''))
           | (resp, None) \<Rightarrow>
               (case ListResponder ax cl resp of
                  (result, Some err) \<Rightarrow>
                    (result,
                     Some (NewErrorWithError ax err ''logic/WorkflowRunsClient'' ''List''
                             ''Failure responding to request''))
                | (result, None) \<Rightarrow> (result, None))))"

section \<open>Concrete inputs for the examples\<close>

text \<open>
  Two stand-ins for \<open>tls.X509KeyPair\<close>, to run \<open>makeClient\<close> on concrete inputs: one
  that accepts every pair of blocks, and one that rejects every pair with the error the
  library gives for input without PEM data.
\<close>

definition acceptKeyPair :: "byte list \<Rightarrow> byte list \<Rightarrow> tls_Certificate \<times> error option" where
  "acceptKeyPair certPEMBlock keyPEMBlock =
     (\<lparr>Certificate = [certPEMBlock], PrivateKey = keyPEMBlock\<rparr>, None)"

definition rejectKeyPair :: "byte list \<Rightarrow> byte list \<Rightarrow> tls_Certificate \<times> error option" where
  "rejectKeyPair certPEMBlock keyPEMBlock =
     (\<lparr>Certificate = [], PrivateKey = []\<rparr>,
      Some (tls_error ''tls: failed to find any PEM data in certificate input''))"

text \<open>
  A stand-in for the autorest library whose phases fail on demand: \<open>sampleAutorest p s r\<close>
  fails in preparing, sending or responding when \<open>p\<close>, \<open>s\<close> or \<open>r\<close> is set. Its
  \<open>NewErrorWithError\<close> records its four arguments.
\<close>

datatype sample_error = Cause string | DetailedError sample_error string string string

definition sampleAutorest :: "bool \<Rightarrow> bool \<Rightarrow> bool \<Rightarrow> (nat, nat, nat, sample_error) autorest" where
  "sampleAutorest p s r =
     \<lparr>Prepare = (\<lambda>ds. if p then (None, Some (Cause ''no request'')) else (Some 1, None)),
      Send = (\<lambda>req codes. if s then (None, Some (Cause ''connection refused''))
                           else (Some 2, None)),
      Respond = (\<lambda>resp ds. if r then (None, Some (Cause ''status 500'')) else (Some 3, None)),
      NewErrorWithError = DetailedError,
      QueryEscape = (\<lambda>s. s),
      logic_APIVersion = ''2015-02-01-preview''\<rparr>"

text \<open>Status queries that always return Failed, and ones that stay in progress.\<close>

definition alwaysFailed :: "OperationID \<Rightarrow> nat \<Rightarrow> string query_outcome" where
  "alwaysFailed operationID k = Returned (Inr (Failed ''InternalError'' ''disk full''))"

definition alwaysInProgress :: "OperationID \<Rightarrow> nat \<Rightarrow> string query_outcome" where
  "alwaysInProgress operationID k = Returned (Inr InProgress)"

definition neverCancelled :: "nat \<Rightarrow> interval_outcome" where
  "neverCancelled k = IntervalElapsed"

definition cancelledInRound :: "nat \<Rightarrow> nat \<Rightarrow> interval_outcome" where
  "cancelledInRound n k = (if k = n then SignalDuringInterval else IntervalElapsed)"

section \<open>Properties of client construction\<close>

subsection \<open>The branches of \<open>makeClient\<close>\<close>

lemma makeClient_invalid:
  assumes "subscriptionID = [] \<or> managementCert = [] \<or> ManagementURL cfg = []
           \<or> sint (OperationPollInterval cfg) \<le> 0 \<or> APIVersion cfg = []"
  shows "makeClient X509KeyPair subscriptionID managementCert cfg h =
           Inr ((None, Some (errors_New
              (if subscriptionID = [] then ''azure: subscription ID required''
               else if managementCert = [] then ''azure: management certificate required''
               else if ManagementURL cfg = [] then ''azure: base URL required''
               else if sint (OperationPollInterval cfg) \<le> 0
                 then ''azure: operation polling interval must be a positive duration''
               else ''azure: client configuration must specify an API version''))), h)"
  using assms by (auto simp: makeClient_def Let_def)

lemma makeClient_bad_key_pair:
  assumes "subscriptionID \<noteq> []" and "managementCert \<noteq> []" and "ManagementURL cfg \<noteq> []"
    and "0 < sint (OperationPollInterval cfg)" and "APIVersion cfg \<noteq> []"
    and "X509KeyPair managementCert managementCert = (cert, Some err)"
  shows "makeClient X509KeyPair subscriptionID managementCert cfg h = Inr ((None, Some err), h)"
  using assms by (simp add: makeClient_def Let_def)

lemma makeClient_valid_own_client:
  assumes "subscriptionID \<noteq> []" and "managementCert \<noteq> []" and "ManagementURL cfg \<noteq> []"
    and "0 < sint (OperationPollInterval cfg)" and "APIVersion cfg \<noteq> []"
    and "X509KeyPair managementCert managementCert = (cert, None)"
    and "Client cfg = None"
  shows "makeClient X509KeyPair subscriptionID managementCert cfg h =
           Inr ((Some \<lparr>publishSettings =
                        \<lparr>SubscriptionID = subscriptionID,
                         SubscriptionCert = managementCert,
                         SubscriptionKey = managementCert\<rparr>,
                      config = (if UserAgent cfg = []
                                then cfg\<lparr>UserAgent := DefaultUserAgent\<rparr> else cfg),
                      client = Some (http_Client_at (http_Clients_next h))\<rparr>, None),
                h\<lparr>http_Transports :=
                     (http_Transports h)
                       (http_Transports_next h :=
                          \<lparr>Proxy = Some http_ProxyFromEnvironment,
                           TLSClientConfig = Some \<lparr>Certificates = [cert]\<rparr>\<rparr>),
                   http_Transports_next := Suc (http_Transports_next h),
                   http_Clients :=
                     (http_Clients h)
                       (http_Client_at (http_Clients_next h) :=
                          \<lparr>Transport = RT_http_Transport (Some (http_Transports_next h))\<rparr>),
                   http_Clients_next := Suc (http_Clients_next h)\<rparr>)"
  using assms
  by (simp add: makeClient_def Let_def new_http_Transport_def new_http_Client_def
      installCert_def)

lemma makeClient_valid_given_client:
  assumes "subscriptionID \<noteq> []" and "managementCert \<noteq> []" and "ManagementURL cfg \<noteq> []"
    and "0 < sint (OperationPollInterval cfg)" and "APIVersion cfg \<noteq> []"
    and "X509KeyPair managementCert managementCert = (cert, None)"
    and "Client cfg = Some p"
  shows "makeClient X509KeyPair subscriptionID managementCert cfg h =
           (case installCert cert (Transport (http_Clients h p)) h of
              Inl pn \<Rightarrow> Inl pn
            | Inr h2 \<Rightarrow>
                Inr ((Some \<lparr>publishSettings =
                             \<lparr>SubscriptionID = subscriptionID,
                              SubscriptionCert = managementCert,
                              SubscriptionKey = managementCert\<rparr>,
                           config = (if UserAgent cfg = []
                                     then cfg\<lparr>UserAgent := DefaultUserAgent\<rparr> else cfg),
                           client = Some p\<rparr>, None), h2))"
  using assms
  by (simp add: makeClient_def Let_def split: sum.splits)

lemma makeClient_error_store:
  assumes "makeClient X509KeyPair subscriptionID managementCert cfg h = Inr ((c, Some e), h')"
  shows "h' = h \<and> c = None"
  using assms
  by (auto simp: makeClient_def Let_def split: option.splits prod.splits if_splits sum.splits)

text \<open>
  With valid input and a caller's transport that is not a nil \<open>*http.Transport\<close>, the
  call returns a client whose configuration is the given one with the user agent
  defaulted.
\<close>

lemma makeClient_returns:
  assumes "subscriptionID \<noteq> []" and "managementCert \<noteq> []" and "ManagementURL cfg \<noteq> []"
    and "0 < sint (OperationPollInterval cfg)" and "APIVersion cfg \<noteq> []"
    and "X509KeyPair managementCert managementCert = (cert, None)"
    and "\<forall>p. Client cfg = Some p \<longrightarrow> Transport (http_Clients h p) \<noteq> RT_http_Transport None"
  shows "\<exists>c h'. makeClient X509KeyPair subscriptionID managementCert cfg h
                   = Inr ((Some c, None), h')
               \<and> config c = (if UserAgent cfg = []
                             then cfg\<lparr>UserAgent := DefaultUserAgent\<rparr> else cfg)"
proof (cases "Client cfg")
  case None
  with assms(1-6)
    makeClient_valid_own_client
      [where h = h and cfg = cfg and X509KeyPair = X509KeyPair and cert = cert
         and subscriptionID = subscriptionID and managementCert = managementCert]
  show ?thesis by simp
next
  case (Some p)
  with assms(7) have usable: "Transport (http_Clients h p) \<noteq> RT_http_Transport None"
    by simp
  then obtain h2 where "installCert cert (Transport (http_Clients h p)) h = Inr h2"
    by (cases "Transport (http_Clients h p)")
       (auto simp: installCert_def split: option.splits)
  with Some assms(1-6)
    makeClient_valid_given_client
      [where h = h and cfg = cfg and X509KeyPair = X509KeyPair and cert = cert and p = p
         and subscriptionID = subscriptionID and managementCert = managementCert]
  show ?thesis by simp
qed

subsection \<open>Invalid input\<close>

text \<open>
  C1. When the subscription ID is empty, the management certificate is empty, the
  management URL is empty, the poll interval is not positive or the API version is empty,
  \<open>NewClientFromConfig\<close> (and \<open>NewClient\<close>, which passes \<open>DefaultConfig\<close>) returns a nil
  client and one of the five configuration errors: the one of the first check that
  fails, in the order of the source. The store is as it was.
\<close>

theorem construction_rejects_invalid_input:
  assumes "subscriptionID = [] \<or> managementCert = [] \<or> ManagementURL cfg = []
           \<or> sint (OperationPollInterval cfg) \<le> 0 \<or> APIVersion cfg = []"
  shows "NewClientFromConfig X509KeyPair subscriptionID managementCert cfg h =
           Inr ((None, Some (errors_New
              (if subscriptionID = [] then ''azure: subscription ID required''
               else if managementCert = [] then ''azure: management certificate required''
               else if ManagementURL cfg = [] then ''azure: base URL required''
               else if sint (OperationPollInterval cfg) \<le> 0
                 then ''azure: operation polling interval must be a positive duration''
               else ''azure: client configuration must specify an API version''))), h)
         \<and> (cfg = DefaultConfig \<longrightarrow>
              NewClient X509KeyPair subscriptionID managementCert h =
                NewClientFromConfig X509KeyPair subscriptionID managementCert cfg h)"
proof -
  have "NewClientFromConfig X509KeyPair subscriptionID managementCert cfg h =
          makeClient X509KeyPair subscriptionID managementCert cfg h"
    by (simp add: NewClientFromConfig_def)
  moreover have "cfg = DefaultConfig \<longrightarrow>
      NewClient X509KeyPair subscriptionID managementCert h =
        NewClientFromConfig X509KeyPair subscriptionID managementCert cfg h"
    by (simp add: NewClient_def)
  ultimately show ?thesis
    using makeClient_invalid [OF assms] by simp
qed

theorem construction_rejects_invalid_input_witness:
  "NewClientFromConfig acceptKeyPair [] [1] DefaultConfig empty_heap =
     Inr ((None, Some (errors_New ''azure: subscription ID required'')), empty_heap)
   \<and> NewClient acceptKeyPair [] [1] empty_heap =
     Inr ((None, Some (errors_New ''azure: subscription ID required'')), empty_heap)
   \<and> NewClientFromConfig acceptKeyPair ''sub'' [] DefaultConfig empty_heap =
     Inr ((None, Some (errors_New ''azure: management certificate required'')), empty_heap)
   \<and> NewClientFromConfig acceptKeyPair ''sub'' [1]
        (DefaultConfig\<lparr>ManagementURL := []\<rparr>) empty_heap =
     Inr ((None, Some (errors_New ''azure: base URL required'')), empty_heap)
   \<and> NewClientFromConfig acceptKeyPair ''sub'' [1]
        (DefaultConfig\<lparr>OperationPollInterval := - 1\<rparr>) empty_heap =
     Inr ((None, Some (errors_New
        ''azure: operation polling interval must be a positive duration'')), empty_heap)
   \<and> NewClientFromConfig acceptKeyPair ''sub'' [1]
        (DefaultConfig\<lparr>APIVersion := []\<rparr>) empty_heap =
     Inr ((None, Some (errors_New
        ''azure: client configuration must specify an API version'')), empty_heap)"
  using
    construction_rejects_invalid_input
      [of "[]" "[1]" DefaultConfig acceptKeyPair empty_heap]
    construction_rejects_invalid_input
      [of "''sub''" "[]" DefaultConfig acceptKeyPair empty_heap]
    construction_rejects_invalid_input
      [of "''sub''" "[1]" "DefaultConfig\<lparr>ManagementURL := []\<rparr>" acceptKeyPair empty_heap]
    construction_rejects_invalid_input
      [of "''sub''" "[1]" "DefaultConfig\<lparr>OperationPollInterval := - 1\<rparr>"
          acceptKeyPair empty_heap]
    construction_rejects_invalid_input
      [of "''sub''" "[1]" "DefaultConfig\<lparr>APIVersion := []\<rparr>" acceptKeyPair empty_heap]
  by (simp add: DefaultConfig_def DefaultAzureManagementURL_def DefaultAPIVersion_def
      DefaultOperationPollInterval_def time_Second_def)

subsection \<open>Valid input\<close>

text \<open>
  C2, as the claim states it, fails: a caller's \<open>http.Client\<close> whose \<open>Transport\<close> holds
  a nil \<open>*http.Transport\<close> pointer comes with a non-empty subscription ID, a certificate
  that parses and a configuration that passes the three checks, yet construction does
  not succeed. The type switch takes the \<open>*http.Transport\<close> case and the assignment
  through the nil pointer panics.
\<close>

theorem typed_nil_transport_panics_counterexample:
  "snd (acceptKeyPair [1] [1]) = None
   \<and> ManagementURL (DefaultConfig\<lparr>Client := Some (http_Client_at 0)\<rparr>) \<noteq> []
   \<and> 0 < sint (OperationPollInterval (DefaultConfig\<lparr>Client := Some (http_Client_at 0)\<rparr>))
   \<and> APIVersion (DefaultConfig\<lparr>Client := Some (http_Client_at 0)\<rparr>) \<noteq> []
   \<and> NewClientFromConfig acceptKeyPair ''sub'' [1]
        (DefaultConfig\<lparr>Client := Some (http_Client_at 0)\<rparr>)
        (snd (new_http_Client \<lparr>Transport = RT_http_Transport None\<rparr> empty_heap))
       = Inl nil_pointer_dereference"
  by (simp add: NewClientFromConfig_def makeClient_def acceptKeyPair_def DefaultConfig_def
      DefaultAzureManagementURL_def DefaultAPIVersion_def DefaultOperationPollInterval_def
      DefaultUserAgent_def time_Second_def Let_def new_http_Client_def installCert_def
      empty_heap_def)

text \<open>
  C2, amended. With a non-empty subscription ID, a non-empty certificate that parses as
  a key pair, a configuration that passes the three checks, and no nil \<open>*http.Transport\<close>
  pointer as the transport of a caller's \<open>http.Client\<close>, construction returns a client
  and a nil error. The client's stored configuration is the given one, except that an
  empty user agent has become \<open>DefaultUserAgent\<close>; all other fields, the \<open>Client\<close>
  pointer included, are those of the input.
\<close>

theorem construction_accepts_valid_input:
  assumes "subscriptionID \<noteq> []" and "managementCert \<noteq> []"
    and "X509KeyPair managementCert managementCert = (cert, None)"
    and "ManagementURL cfg \<noteq> []" and "0 < sint (OperationPollInterval cfg)"
    and "APIVersion cfg \<noteq> []"
    and "\<forall>p. Client cfg = Some p \<longrightarrow> Transport (http_Clients h p) \<noteq> RT_http_Transport None"
  shows "\<exists>c h'. NewClientFromConfig X509KeyPair subscriptionID managementCert cfg h
                   = Inr ((Some c, None), h')
             \<and> config c = (if UserAgent cfg = []
                           then cfg\<lparr>UserAgent := DefaultUserAgent\<rparr> else cfg)
             \<and> ManagementURL (config c) = ManagementURL cfg
             \<and> OperationPollInterval (config c) = OperationPollInterval cfg
             \<and> APIVersion (config c) = APIVersion cfg
             \<and> Client (config c) = Client cfg
             \<and> UserAgent (config c)
                 = (if UserAgent cfg = [] then DefaultUserAgent else UserAgent cfg)"
proof -
  from assms
    makeClient_returns
      [where h = h and cfg = cfg and X509KeyPair = X509KeyPair and cert = cert
         and subscriptionID = subscriptionID and managementCert = managementCert]
  obtain c h' where
    "makeClient X509KeyPair subscriptionID managementCert cfg h = Inr ((Some c, None), h')"
    and "config c = (if UserAgent cfg = [] then cfg\<lparr>UserAgent := DefaultUserAgent\<rparr> else cfg)"
    by blast
  then show ?thesis
    by (auto simp: NewClientFromConfig_def)
qed

theorem construction_accepts_valid_input_witness:
  "(\<exists>c h'. NewClientFromConfig acceptKeyPair ''sub'' [1]
              (DefaultConfig\<lparr>UserAgent := []\<rparr>) empty_heap = Inr ((Some c, None), h')
       \<and> config c = DefaultConfig
       \<and> UserAgent (config c) = ''azure-sdk-for-go'')
   \<and> (\<exists>c h'. NewClientFromConfig acceptKeyPair ''sub'' [1]
              (DefaultConfig\<lparr>Client := Some (http_Client_at 0)\<rparr>)
              (snd (new_http_Client \<lparr>Transport = RT_http_Transport (Some 0)\<rparr>
                 (snd (new_http_Transport \<lparr>Proxy = None, TLSClientConfig = None\<rparr>
                    empty_heap))))
            = Inr ((Some c, None), h')
       \<and> config c = DefaultConfig\<lparr>Client := Some (http_Client_at 0)\<rparr>)"
  using
    construction_accepts_valid_input
      [of "''sub''" "[1]" acceptKeyPair "\<lparr>Certificate = [[1]], PrivateKey = [1]\<rparr>"
          "DefaultConfig\<lparr>UserAgent := []\<rparr>" empty_heap]
    construction_accepts_valid_input
      [of "''sub''" "[1]" acceptKeyPair "\<lparr>Certificate = [[1]], PrivateKey = [1]\<rparr>"
          "DefaultConfig\<lparr>Client := Some (http_Client_at 0)\<rparr>"
          "snd (new_http_Client \<lparr>Transport = RT_http_Transport (Some 0)\<rparr>
                 (snd (new_http_Transport \<lparr>Proxy = None, TLSClientConfig = None\<rparr>
                    empty_heap)))"]
  by (auto simp: acceptKeyPair_def DefaultConfig_def DefaultAzureManagementURL_def
      DefaultAPIVersion_def DefaultOperationPollInterval_def time_Second_def
      DefaultUserAgent_def new_http_Client_def new_http_Transport_def empty_heap_def)

subsection \<open>The user agent\<close>

text \<open>
  C6, as the claim states it, fails: a configuration whose user agent is empty and whose
  other fields are valid is accepted.
\<close>

theorem empty_user_agent_rejected_counterexample:
  "UserAgent (DefaultConfig\<lparr>UserAgent := []\<rparr>) = []
   \<and> \<not> isl (NewClientFromConfig acceptKeyPair ''sub'' [1]
                (DefaultConfig\<lparr>UserAgent := []\<rparr>) empty_heap)
   \<and> fst (fst (projr (NewClientFromConfig acceptKeyPair ''sub'' [1]
                  (DefaultConfig\<lparr>UserAgent := []\<rparr>) empty_heap))) \<noteq> None
   \<and> snd (fst (projr (NewClientFromConfig acceptKeyPair ''sub'' [1]
                  (DefaultConfig\<lparr>UserAgent := []\<rparr>) empty_heap))) = None"
  by (simp add: NewClientFromConfig_def makeClient_def acceptKeyPair_def DefaultConfig_def
      DefaultAzureManagementURL_def DefaultAPIVersion_def DefaultOperationPollInterval_def
      time_Second_def Let_def new_http_Transport_def new_http_Client_def installCert_def)

text \<open>
  C6, amended. The base URL and the API version must be non-empty: construction fails,
  with a nil client and a non-nil error, whenever either is empty, whatever the user
  agent is. An empty user agent does not fail construction: when the other inputs are
  valid (a \<open>*http.Transport\<close> handed in by the caller being a pointer to a transport, not
  nil) the client is built and its stored user agent is \<open>DefaultUserAgent\<close>.
\<close>

theorem url_and_version_required_user_agent_defaulted:
  "((ManagementURL cfg = [] \<or> APIVersion cfg = []) \<longrightarrow>
      (\<exists>e. NewClientFromConfig X509KeyPair subscriptionID managementCert cfg h
              = Inr ((None, Some e), h)))
   \<and> (subscriptionID \<noteq> [] \<and> managementCert \<noteq> []
        \<and> snd (X509KeyPair managementCert managementCert) = None
        \<and> ManagementURL cfg \<noteq> [] \<and> 0 < sint (OperationPollInterval cfg)
        \<and> APIVersion cfg \<noteq> [] \<and> UserAgent cfg = []
        \<and> (\<forall>p. Client cfg = Some p \<longrightarrow>
               Transport (http_Clients h p) \<noteq> RT_http_Transport None) \<longrightarrow>
      (\<exists>c h'. NewClientFromConfig X509KeyPair subscriptionID managementCert cfg h
                 = Inr ((Some c, None), h')
             \<and> UserAgent (config c) = DefaultUserAgent))"
proof (intro conjI impI)
  assume bad: "ManagementURL cfg = [] \<or> APIVersion cfg = []"
  then have "subscriptionID = [] \<or> managementCert = [] \<or> ManagementURL cfg = []
      \<or> sint (OperationPollInterval cfg) \<le> 0 \<or> APIVersion cfg = []"
    by blast
  from makeClient_invalid [OF this, of X509KeyPair h]
  show "\<exists>e. NewClientFromConfig X509KeyPair subscriptionID managementCert cfg h
              = Inr ((None, Some e), h)"
    by (simp add: NewClientFromConfig_def)
next
  assume ok: "subscriptionID \<noteq> [] \<and> managementCert \<noteq> []
        \<and> snd (X509KeyPair managementCert managementCert) = None
        \<and> ManagementURL cfg \<noteq> [] \<and> 0 < sint (OperationPollInterval cfg)
        \<and> APIVersion cfg \<noteq> [] \<and> UserAgent cfg = []
        \<and> (\<forall>p. Client cfg = Some p \<longrightarrow>
               Transport (http_Clients h p) \<noteq> RT_http_Transport None)"
  then obtain cert where kp: "X509KeyPair managementCert managementCert = (cert, None)"
    by (cases "X509KeyPair managementCert managementCert") auto
  from ok kp
    makeClient_returns [where h = h and cfg = cfg and X509KeyPair = X509KeyPair
      and subscriptionID = subscriptionID and managementCert = managementCert and cert = cert]
  obtain c h' where
    "makeClient X509KeyPair subscriptionID managementCert cfg h = Inr ((Some c, None), h')"
    and "config c = (if UserAgent cfg = [] then cfg\<lparr>UserAgent := DefaultUserAgent\<rparr> else cfg)"
    by blast
  with ok show "\<exists>c h'. NewClientFromConfig X509KeyPair subscriptionID managementCert cfg h
                 = Inr ((Some c, None), h')
             \<and> UserAgent (config c) = DefaultUserAgent"
    by (auto simp: NewClientFromConfig_def)
qed

theorem url_and_version_required_user_agent_defaulted_witness:
  "(\<exists>e. NewClientFromConfig acceptKeyPair ''sub'' [1]
          (DefaultConfig\<lparr>ManagementURL := []\<rparr>) empty_heap = Inr ((None, Some e), empty_heap))
   \<and> (\<exists>e. NewClientFromConfig acceptKeyPair ''sub'' [1]
          (DefaultConfig\<lparr>APIVersion := [], UserAgent := []\<rparr>) empty_heap
          = Inr ((None, Some e), empty_heap))
   \<and> (\<exists>c h'. NewClientFromConfig acceptKeyPair ''sub'' [1]
          (DefaultConfig\<lparr>UserAgent := []\<rparr>) empty_heap = Inr ((Some c, None), h')
        \<and> UserAgent (config c) = ''azure-sdk-for-go'')"
  using
    url_and_version_required_user_agent_defaulted
      [of "DefaultConfig\<lparr>ManagementURL := []\<rparr>" acceptKeyPair "''sub''" "[1]" empty_heap]
    url_and_version_required_user_agent_defaulted
      [of "DefaultConfig\<lparr>APIVersion := [], UserAgent := []\<rparr>" acceptKeyPair "''sub''" "[1]"
          empty_heap]
    url_and_version_required_user_agent_defaulted
      [of "DefaultConfig\<lparr>UserAgent := []\<rparr>" acceptKeyPair "''sub''" "[1]" empty_heap]
  by (auto simp: acceptKeyPair_def DefaultConfig_def DefaultAzureManagementURL_def
      DefaultAPIVersion_def DefaultOperationPollInterval_def time_Second_def
      DefaultUserAgent_def)

subsection \<open>Where the certificate is installed\<close>

text \<open>
  C5, as the claim states it, fails: for a caller's \<open>http.Client\<close> whose transport is
  nil (the zero \<open>http.Client\<close>), construction succeeds and the store is left as it was,
  so no transport holds the certificate.
\<close>

theorem nil_transport_holds_no_certificate_counterexample:
  "Transport (http_Clients (snd (new_http_Client \<lparr>Transport = RT_nil\<rparr> empty_heap))
                (http_Client_at 0)) = RT_nil
   \<and> TLSClientConfig (http_Transports
         (snd (new_http_Client \<lparr>Transport = RT_nil\<rparr> empty_heap)) 0) = None
   \<and> makeClient acceptKeyPair ''sub'' [1]
         (DefaultConfig\<lparr>Client := Some (http_Client_at 0)\<rparr>)
         (snd (new_http_Client \<lparr>Transport = RT_nil\<rparr> empty_heap))
       = Inr ((Some \<lparr>publishSettings =
                       \<lparr>SubscriptionID = ''sub'', SubscriptionCert = [1],
                        SubscriptionKey = [1]\<rparr>,
                     config = DefaultConfig\<lparr>Client := Some (http_Client_at 0)\<rparr>,
                     client = Some (http_Client_at 0)\<rparr>, None),
              snd (new_http_Client \<lparr>Transport = RT_nil\<rparr> empty_heap))"
  by (simp add: makeClient_def acceptKeyPair_def DefaultConfig_def
      DefaultAzureManagementURL_def DefaultAPIVersion_def DefaultOperationPollInterval_def
      DefaultUserAgent_def time_Second_def Let_def new_http_Client_def installCert_def
      empty_heap_def)

text \<open>
  C5, amended. On valid input: when the HTTP client's transport is a non-nil
  \<open>*http.Transport\<close>, construction succeeds and the certificate is installed by direct
  TLS configuration, that is, the transport's \<open>TLSClientConfig\<close> becomes a configuration
  holding exactly the parsed certificate and nothing else in the store changes; this is
  always so for the client and transport created when \<open>config.Client\<close> is nil. When the
  transport is nil, or of another type that has no \<open>InjectCert\<close> method, construction
  still succeeds and the store is left unchanged.
\<close>

theorem certificate_installed_by_transport_type:
  assumes "subscriptionID \<noteq> []" and "managementCert \<noteq> []"
    and "X509KeyPair managementCert managementCert = (cert, None)"
    and "ManagementURL cfg \<noteq> []" and "0 < sint (OperationPollInterval cfg)"
    and "APIVersion cfg \<noteq> []"
  shows "(Client cfg = None \<longrightarrow>
           (\<exists>c h'. makeClient X509KeyPair subscriptionID managementCert cfg h
                      = Inr ((Some c, None), h')
                  \<and> client c = Some (http_Client_at (http_Clients_next h))
                  \<and> Transport (http_Clients h' (http_Client_at (http_Clients_next h)))
                      = RT_http_Transport (Some (http_Transports_next h))
                  \<and> http_Transports h' (http_Transports_next h)
                      = \<lparr>Proxy = Some http_ProxyFromEnvironment,
                         TLSClientConfig = Some \<lparr>Certificates = [cert]\<rparr>\<rparr>))
    \<and> (\<forall>p a. Client cfg = Some p
               \<and> Transport (http_Clients h p) = RT_http_Transport (Some a) \<longrightarrow>
           (\<exists>c. makeClient X509KeyPair subscriptionID managementCert cfg h
                   = Inr ((Some c, None),
                          h\<lparr>http_Transports := (http_Transports h)
                               (a := (http_Transports h a)
                                  \<lparr>TLSClientConfig := Some \<lparr>Certificates = [cert]\<rparr>\<rparr>)\<rparr>)
               \<and> client c = Some p))
    \<and> (\<forall>p. Client cfg = Some p
             \<and> (Transport (http_Clients h p) = RT_nil
                \<or> (\<exists>ms i. Transport (http_Clients h p) = RT_other ms i
                      \<and> ''InjectCert'' \<notin> set ms)) \<longrightarrow>
           (\<exists>c. makeClient X509KeyPair subscriptionID managementCert cfg h
                   = Inr ((Some c, None), h)
               \<and> client c = Some p))"
proof (intro conjI allI impI)
  assume "Client cfg = None"
  with assms
    makeClient_valid_own_client
      [where h = h and cfg = cfg and X509KeyPair = X509KeyPair and cert = cert
         and subscriptionID = subscriptionID and managementCert = managementCert]
  show "\<exists>c h'. makeClient X509KeyPair subscriptionID managementCert cfg h
                      = Inr ((Some c, None), h')
                  \<and> client c = Some (http_Client_at (http_Clients_next h))
                  \<and> Transport (http_Clients h' (http_Client_at (http_Clients_next h)))
                      = RT_http_Transport (Some (http_Transports_next h))
                  \<and> http_Transports h' (http_Transports_next h)
                      = \<lparr>Proxy = Some http_ProxyFromEnvironment,
                         TLSClientConfig = Some \<lparr>Certificates = [cert]\<rparr>\<rparr>"
    by simp
next
  fix p a
  assume "Client cfg = Some p \<and> Transport (http_Clients h p) = RT_http_Transport (Some a)"
  with assms
    makeClient_valid_given_client
      [where h = h and cfg = cfg and X509KeyPair = X509KeyPair and cert = cert and p = p
         and subscriptionID = subscriptionID and managementCert = managementCert]
  show "\<exists>c. makeClient X509KeyPair subscriptionID managementCert cfg h
                   = Inr ((Some c, None),
                          h\<lparr>http_Transports := (http_Transports h)
                               (a := (http_Transports h a)
                                  \<lparr>TLSClientConfig := Some \<lparr>Certificates = [cert]\<rparr>\<rparr>)\<rparr>)
               \<and> client c = Some p"
    by (simp add: installCert_def)
next
  fix p
  assume "Client cfg = Some p
             \<and> (Transport (http_Clients h p) = RT_nil
                \<or> (\<exists>ms i. Transport (http_Clients h p) = RT_other ms i
                      \<and> ''InjectCert'' \<notin> set ms))"
  with assms
    makeClient_valid_given_client
      [where h = h and cfg = cfg and X509KeyPair = X509KeyPair and cert = cert and p = p
         and subscriptionID = subscriptionID and managementCert = managementCert]
  show "\<exists>c. makeClient X509KeyPair subscriptionID managementCert cfg h
                   = Inr ((Some c, None), h)
               \<and> client c = Some p"
    by (auto simp: installCert_def)
qed

theorem certificate_installed_by_transport_type_witness:
  "(\<exists>c h'. makeClient acceptKeyPair ''sub'' [1] DefaultConfig empty_heap
              = Inr ((Some c, None), h')
          \<and> client c = Some (http_Client_at 0)
          \<and> Transport (http_Clients h' (http_Client_at 0)) = RT_http_Transport (Some 0)
          \<and> http_Transports h' 0
              = \<lparr>Proxy = Some http_ProxyFromEnvironment,
                 TLSClientConfig =
                   Some \<lparr>Certificates = [\<lparr>Certificate = [[1]], PrivateKey = [1]\<rparr>]\<rparr>\<rparr>)
   \<and> (\<exists>c h'. makeClient acceptKeyPair ''sub'' [1]
               (DefaultConfig\<lparr>Client := Some (http_Client_at 0)\<rparr>)
               (snd (new_http_Client \<lparr>Transport = RT_http_Transport (Some 0)\<rparr>
                  (snd (new_http_Transport \<lparr>Proxy = None, TLSClientConfig = None\<rparr>
                     empty_heap))))
              = Inr ((Some c, None), h')
          \<and> http_Transports h' 0
              = \<lparr>Proxy = None,
                 TLSClientConfig =
                   Some \<lparr>Certificates = [\<lparr>Certificate = [[1]], PrivateKey = [1]\<rparr>]\<rparr>\<rparr>)
   \<and> (\<exists>c. makeClient acceptKeyPair ''sub'' [1]
               (DefaultConfig\<lparr>Client := Some (http_Client_at 0)\<rparr>)
               (snd (new_http_Client \<lparr>Transport = RT_other [''RoundTrip''] 7\<rparr> empty_heap))
            = Inr ((Some c, None),
                   snd (new_http_Client \<lparr>Transport = RT_other [''RoundTrip''] 7\<rparr>
                          empty_heap)))"
  using
    certificate_installed_by_transport_type
      [of "''sub''" "[1]" acceptKeyPair "\<lparr>Certificate = [[1]], PrivateKey = [1]\<rparr>"
          DefaultConfig empty_heap]
    certificate_installed_by_transport_type
      [of "''sub''" "[1]" acceptKeyPair "\<lparr>Certificate = [[1]], PrivateKey = [1]\<rparr>"
          "DefaultConfig\<lparr>Client := Some (http_Client_at 0)\<rparr>"
          "snd (new_http_Client \<lparr>Transport = RT_http_Transport (Some 0)\<rparr>
                  (snd (new_http_Transport \<lparr>Proxy = None, TLSClientConfig = None\<rparr>
                     empty_heap)))"]
    certificate_installed_by_transport_type
      [of "''sub''" "[1]" acceptKeyPair "\<lparr>Certificate = [[1]], PrivateKey = [1]\<rparr>"
          "DefaultConfig\<lparr>Client := Some (http_Client_at 0)\<rparr>"
          "snd (new_http_Client \<lparr>Transport = RT_other [''RoundTrip''] 7\<rparr> empty_heap)"]
  by (auto simp: acceptKeyPair_def DefaultConfig_def DefaultAzureManagementURL_def
      DefaultAPIVersion_def DefaultOperationPollInterval_def DefaultUserAgent_def
      time_Second_def new_http_Client_def new_http_Transport_def empty_heap_def)

subsection \<open>The store when construction fails\<close>

text \<open>
  C9. Whenever \<open>makeClient\<close> returns an error the store is the one it was given, so the
  caller's \<open>http.Client\<close> and its transport are unmodified. In particular every failed
  check, and a certificate that does not parse as a key pair, ends the call with an
  error before the transport is written.
\<close>

theorem makeClient_error_leaves_store:
  "(\<forall>c e h'. makeClient X509KeyPair subscriptionID managementCert cfg h
                = Inr ((c, Some e), h') \<longrightarrow> h' = h)
   \<and> (subscriptionID = [] \<or> managementCert = [] \<or> ManagementURL cfg = []
        \<or> sint (OperationPollInterval cfg) \<le> 0 \<or> APIVersion cfg = []
        \<or> snd (X509KeyPair managementCert managementCert) \<noteq> None \<longrightarrow>
      (\<exists>e. makeClient X509KeyPair subscriptionID managementCert cfg h
              = Inr ((None, Some e), h)))"
proof (intro conjI allI impI)
  fix c e h'
  assume "makeClient X509KeyPair subscriptionID managementCert cfg h = Inr ((c, Some e), h')"
  then show "h' = h"
    using makeClient_error_store by blast
next
  assume bad: "subscriptionID = [] \<or> managementCert = [] \<or> ManagementURL cfg = []
        \<or> sint (OperationPollInterval cfg) \<le> 0 \<or> APIVersion cfg = []
        \<or> snd (X509KeyPair managementCert managementCert) \<noteq> None"
  show "\<exists>e. makeClient X509KeyPair subscriptionID managementCert cfg h
              = Inr ((None, Some e), h)"
  proof (cases "subscriptionID = [] \<or> managementCert = [] \<or> ManagementURL cfg = []
        \<or> sint (OperationPollInterval cfg) \<le> 0 \<or> APIVersion cfg = []")
    case True
    from makeClient_invalid [OF True, of X509KeyPair h] show ?thesis by simp
  next
    case False
    with bad obtain cert err
      where "X509KeyPair managementCert managementCert = (cert, Some err)"
      by (cases "X509KeyPair managementCert managementCert") auto
    with False makeClient_bad_key_pair [where h = h and cfg = cfg and X509KeyPair = X509KeyPair]
    show ?thesis by simp
  qed
qed

theorem makeClient_error_leaves_store_witness:
  "makeClient rejectKeyPair ''sub'' [1]
     (DefaultConfig\<lparr>Client := Some (http_Client_at 0)\<rparr>)
     (snd (new_http_Client \<lparr>Transport = RT_http_Transport (Some 0)\<rparr>
        (snd (new_http_Transport \<lparr>Proxy = None, TLSClientConfig = None\<rparr> empty_heap))))
   = Inr ((None, Some (tls_error ''tls: failed to find any PEM data in certificate input'')),
          snd (new_http_Client \<lparr>Transport = RT_http_Transport (Some 0)\<rparr>
            (snd (new_http_Transport \<lparr>Proxy = None, TLSClientConfig = None\<rparr> empty_heap))))"
  using makeClient_error_leaves_store
          [of rejectKeyPair "''sub''" "[1]"
              "DefaultConfig\<lparr>Client := Some (http_Client_at 0)\<rparr>"
              "snd (new_http_Client \<lparr>Transport = RT_http_Transport (Some 0)\<rparr>
                  (snd (new_http_Transport \<lparr>Proxy = None, TLSClientConfig = None\<rparr>
                     empty_heap)))"]
    makeClient_bad_key_pair
          [of "''sub''" "[1]" "DefaultConfig\<lparr>Client := Some (http_Client_at 0)\<rparr>"
              rejectKeyPair "\<lparr>Certificate = [], PrivateKey = []\<rparr>"
              "tls_error ''tls: failed to find any PEM data in certificate input''"
              "snd (new_http_Client \<lparr>Transport = RT_http_Transport (Some 0)\<rparr>
                  (snd (new_http_Transport \<lparr>Proxy = None, TLSClientConfig = None\<rparr>
                     empty_heap)))"]
  by (simp add: rejectKeyPair_def DefaultConfig_def DefaultAzureManagementURL_def
      DefaultAPIVersion_def DefaultOperationPollInterval_def time_Second_def)

subsection \<open>The anonymous client\<close>

text \<open>
  C10. \<open>NewAnonymousClient\<close> returns a client and nothing else (its Go type has no error
  result). The client's configuration is zero-valued: empty management URL, zero poll
  interval, empty API version, empty user agent, nil \<open>Client\<close>; its publish settings
  are empty; its HTTP client is \<open>http.DefaultClient\<close>. No validation ran: the same
  configuration is refused by \<open>makeClient\<close> for every subscription ID, certificate and
  store.
\<close>

theorem NewAnonymousClient_zero_valued:
  "ManagementURL (config NewAnonymousClient) = []
   \<and> OperationPollInterval (config NewAnonymousClient) = 0
   \<and> APIVersion (config NewAnonymousClient) = []
   \<and> UserAgent (config NewAnonymousClient) = []
   \<and> Client (config NewAnonymousClient) = None
   \<and> SubscriptionID (publishSettings NewAnonymousClient) = []
   \<and> SubscriptionCert (publishSettings NewAnonymousClient) = []
   \<and> SubscriptionKey (publishSettings NewAnonymousClient) = []
   \<and> client NewAnonymousClient = Some http_DefaultClient
   \<and> makeClient X509KeyPair subscriptionID managementCert (config NewAnonymousClient) h
       = Inr ((None, Some (errors_New
                 (if subscriptionID = [] then ''azure: subscription ID required''
                  else if managementCert = [] then ''azure: management certificate required''
                  else ''azure: base URL required''))), h)"
proof -
  have "ManagementURL (config NewAnonymousClient) = []"
    by (simp add: NewAnonymousClient_def)
  then have "subscriptionID = [] \<or> managementCert = []
      \<or> ManagementURL (config NewAnonymousClient) = []
      \<or> sint (OperationPollInterval (config NewAnonymousClient)) \<le> 0
      \<or> APIVersion (config NewAnonymousClient) = []"
    by simp
  from makeClient_invalid [OF this, of X509KeyPair h]
  show ?thesis by (simp add: NewAnonymousClient_def)
qed

subsection \<open>Defaults\<close>

text \<open>
  C7. The default configuration holds the production endpoint, a poll interval of thirty
  seconds (in nanoseconds), the date-stamped API version and the default user agent, and
  \<open>NewClient\<close> is \<open>NewClientFromConfig\<close> applied to \<open>DefaultConfig\<close>.
\<close>

theorem DefaultConfig_values:
  "ManagementURL DefaultConfig = ''https://management.core.windows.net''
   \<and> sint (OperationPollInterval DefaultConfig) = 30 * 1000000000
   \<and> APIVersion DefaultConfig = ''2014-10-01''
   \<and> UserAgent DefaultConfig = ''azure-sdk-for-go''
   \<and> UserAgent DefaultConfig = DefaultUserAgent
   \<and> Client DefaultConfig = None
   \<and> NewClient X509KeyPair subscriptionID managementCert h
       = NewClientFromConfig X509KeyPair subscriptionID managementCert DefaultConfig h"
  by (simp add: DefaultConfig_def DefaultAzureManagementURL_def
      DefaultOperationPollInterval_def time_Second_def DefaultAPIVersion_def
      DefaultUserAgent_def NewClient_def)

section \<open>Properties of the poll loop\<close>

lemma pollLoop_in_progress:
  assumes "\<forall>k<d. query (m + k) = Returned (Inr InProgress) \<and> cancel (m + k) = IntervalElapsed"
  shows "pollLoop query cancel m = pollLoop query cancel (m + d)"
  using assms
proof (induction d arbitrary: m)
  case 0
  then show ?case by simp
next
  case (Suc d)
  from Suc.prems have here: "query m = Returned (Inr InProgress)" "cancel m = IntervalElapsed"
    by (metis add.right_neutral zero_less_Suc)+
  have "\<forall>k<d. query (Suc m + k) = Returned (Inr InProgress)
               \<and> cancel (Suc m + k) = IntervalElapsed"
  proof (intro allI impI)
    fix k assume "k < d"
    then have "Suc k < Suc d" by simp
    with Suc.prems have "query (m + Suc k) = Returned (Inr InProgress)
        \<and> cancel (m + Suc k) = IntervalElapsed"
      by blast
    then show "query (Suc m + k) = Returned (Inr InProgress)
        \<and> cancel (Suc m + k) = IntervalElapsed"
      by simp
  qed
  then have "pollLoop query cancel (Suc m) = pollLoop query cancel (Suc m + d)"
    by (rule Suc.IH)
  moreover have "pollLoop query cancel m = pollLoop query cancel (Suc m)"
    by (subst pollLoop.simps) (simp add: here)
  ultimately show ?case by simp
qed

lemma pollLoop_cancelled:
  assumes "query n = SignalDuringQuery
           \<or> (query n = Returned (Inr InProgress) \<and> cancel n = SignalDuringInterval)"
  shows "pollLoop query cancel n = Some (Some Cancelled, Suc n)"
  using assms by (subst pollLoop.simps) auto

text \<open>
  C3. When every status query for the operation returns Failed with a code and a
  message, \<open>WaitForOperation\<close> returns, after exactly one status query, the error
  \<open>OperationFailed\<close> with that code and message, whatever the cancellation signal does
  during the interval waits.
\<close>

theorem WaitForOperation_always_failed:
  assumes "\<forall>k. GetOperationStatus operationID k = Returned (Inr (Failed code msg))"
  shows "WaitForOperation GetOperationStatus operationID cancel
           = Some (Some (OperationFailed code msg), 1)"
proof -
  from assms have "GetOperationStatus operationID 0 = Returned (Inr (Failed code msg))"
    by blast
  then show ?thesis
    unfolding WaitForOperation_def by (subst pollLoop.simps) simp
qed

theorem WaitForOperation_always_failed_witness:
  "WaitForOperation alwaysFailed ''op-1'' neverCancelled
     = Some (Some (OperationFailed ''InternalError'' ''disk full''), 1)
   \<and> WaitForOperation alwaysFailed ''op-1'' (cancelledInRound 0)
     = Some (Some (OperationFailed ''InternalError'' ''disk full''), 1)"
  using
    WaitForOperation_always_failed
      [of alwaysFailed "''op-1''" "''InternalError''" "''disk full''" neverCancelled]
    WaitForOperation_always_failed
      [of alwaysFailed "''op-1''" "''InternalError''" "''disk full''" "cancelledInRound 0"]
  by (simp add: alwaysFailed_def)

text \<open>
  C4. Let the cancellation signal be observed first in round \<open>n\<close>: the earlier rounds
  each saw a status query return InProgress and the interval elapse, and in round \<open>n\<close>
  the signal fires while the query is in flight, or after the query returned InProgress
  while the interval is awaited. Then \<open>WaitForOperation\<close> returns with \<open>n + 1\<close> status
  queries issued, those of the rounds up to \<open>n\<close> and none after the observation, and its
  error is \<open>Cancelled\<close>, which is neither an \<open>OperationFailed\<close> nor a \<open>PollError\<close>.
\<close>

theorem WaitForOperation_cancelled:
  assumes "\<forall>k<n. GetOperationStatus operationID k = Returned (Inr InProgress)
                 \<and> cancel k = IntervalElapsed"
    and "GetOperationStatus operationID n = SignalDuringQuery
         \<or> (GetOperationStatus operationID n = Returned (Inr InProgress)
            \<and> cancel n = SignalDuringInterval)"
  shows "WaitForOperation GetOperationStatus operationID cancel = Some (Some Cancelled, Suc n)
         \<and> Cancelled \<noteq> OperationFailed code msg
         \<and> (Cancelled :: 'e wait_error) \<noteq> PollError e"
proof -
  from assms(1) have "\<forall>k<n. GetOperationStatus operationID (0 + k) = Returned (Inr InProgress)
      \<and> cancel (0 + k) = IntervalElapsed"
    by simp
  then have "pollLoop (GetOperationStatus operationID) cancel 0
      = pollLoop (GetOperationStatus operationID) cancel (0 + n)"
    by (rule pollLoop_in_progress)
  with assms(2) pollLoop_cancelled [of "GetOperationStatus operationID" n cancel]
  show ?thesis
    by (simp add: WaitForOperation_def)
qed

theorem WaitForOperation_cancelled_witness:
  "WaitForOperation alwaysInProgress ''op-1'' (cancelledInRound 2) = Some (Some Cancelled, 3)
   \<and> (Cancelled :: string wait_error) \<noteq> OperationFailed ''InternalError'' ''disk full''
   \<and> Cancelled \<noteq> PollError ''timeout''"
  using WaitForOperation_cancelled
          [of 2 alwaysInProgress "''op-1''" "cancelledInRound 2" "''InternalError''"
              "''disk full''" "''timeout''"]
  by (simp add: alwaysInProgress_def cancelledInRound_def)

section \<open>Properties of the WorkflowRuns client\<close>

lemma Cancel_error:
  assumes "snd (WorkflowRunsClient_Cancel ax cl rg wn rn) = Some ae"
  shows "(\<exists>err. ae = NewErrorWithError ax err ''logic/WorkflowRunsClient'' ''Cancel''
                      ''Failure preparing request''
            \<and> snd (CancelPreparer ax cl rg wn rn) = Some err)
       \<or> (\<exists>err. ae = NewErrorWithError ax err ''logic/WorkflowRunsClient'' ''Cancel''
                      ''Failure sending request''
            \<and> snd (CancelPreparer ax cl rg wn rn) = None
            \<and> snd (CancelSender ax cl (fst (CancelPreparer ax cl rg wn rn))) = Some err)
       \<or> (\<exists>err. ae = NewErrorWithError ax err ''logic/WorkflowRunsClient'' ''Cancel''
                      ''Failure responding to request''
            \<and> snd (CancelPreparer ax cl rg wn rn) = None
            \<and> snd (CancelSender ax cl (fst (CancelPreparer ax cl rg wn rn))) = None
            \<and> snd (CancelResponder ax cl
                      (fst (CancelSender ax cl (fst (CancelPreparer ax cl rg wn rn)))))
                = Some err)"
  using assms unfolding WorkflowRunsClient_Cancel_def
  by (auto split: prod.splits option.splits)

lemma Get_error:
  assumes "snd (WorkflowRunsClient_Get ax cl rg wn rn) = Some ae"
  shows "(\<exists>err. ae = NewErrorWithError ax err ''logic/WorkflowRunsClient'' ''Get''
                      ''Failure preparing request''
            \<and> snd (GetPreparer ax cl rg wn rn) = Some err)
       \<or> (\<exists>err. ae = NewErrorWithError ax err ''logic/WorkflowRunsClient'' ''Get''
                      ''Failure sending request''
            \<and> snd (GetPreparer ax cl rg wn rn) = None
            \<and> snd (GetSender ax cl (fst (GetPreparer ax cl rg wn rn))) = Some err)
       \<or> (\<exists>err. ae = NewErrorWithError ax err ''logic/WorkflowRunsClient'' ''Get''
                      ''Failure responding to request''
            \<and> snd (GetPreparer ax cl rg wn rn) = None
            \<and> snd (GetSender ax cl (fst (GetPreparer ax cl rg wn rn))) = None
            \<and> snd (GetResponder ax cl
                      (fst (GetSender ax cl (fst (GetPreparer ax cl rg wn rn)))))
                = Some err)"
  using assms unfolding WorkflowRunsClient_Get_def
  by (auto split: prod.splits option.splits)

lemma List_error:
  assumes "snd (WorkflowRunsClient_List ax cl rg wn tp fl) = Some ae"
  shows "(\<exists>err. ae = NewErrorWithError ax err ''logic/WorkflowRunsClient'' ''List''
                      ''Failure preparing request''
            \<and> snd (ListPreparer ax cl rg wn tp fl) = Some err)
       \<or> (\<exists>err. ae = NewErrorWithError ax err ''logic/WorkflowRunsClient'' ''List''
                      ''Failure sending request''
            \<and> snd (ListPreparer ax cl rg wn tp fl) = None
            \<and> snd (ListSender ax cl (fst (ListPreparer ax cl rg wn tp fl))) = Some err)
       \<or> (\<exists>err. ae = NewErrorWithError ax err ''logic/WorkflowRunsClient'' ''List''
                      ''Failure responding to request''
            \<and> snd (ListPreparer ax cl rg wn tp fl) = None
            \<and> snd (ListSender ax cl (fst (ListPreparer ax cl rg wn tp fl))) = None
            \<and> snd (ListResponder ax cl
                      (fst (ListSender ax cl (fst (ListPreparer ax cl rg wn tp fl)))))
                = Some err)"
  using assms unfolding WorkflowRunsClient_List_def
  by (auto split: prod.splits option.splits)

text \<open>
  C8. Every error returned by \<open>Cancel\<close>, \<open>Get\<close> or \<open>List\<close> is the value of
  \<open>autorest.NewErrorWithError\<close> applied to the underlying error, the client name
  \<open>logic/WorkflowRunsClient\<close>, the name of the operation and a phase message, and the
  message names the phase that failed: preparing when the preparer gave the underlying
  error, sending when the preparer succeeded and the sender gave it, responding when
  both succeeded and the responder gave it.
\<close>

theorem WorkflowRunsClient_errors_wrapped:
  "(\<forall>ae. snd (WorkflowRunsClient_Cancel ax cl rg wn rn) = Some ae \<longrightarrow>
      (\<exists>err. ae = NewErrorWithError ax err ''logic/WorkflowRunsClient'' ''Cancel''
                      ''Failure preparing request''
            \<and> snd (CancelPreparer ax cl rg wn rn) = Some err)
       \<or> (\<exists>err. ae = NewErrorWithError ax err ''logic/WorkflowRunsClient'' ''Cancel''
                      ''Failure sending request''
            \<and> snd (CancelPreparer ax cl rg wn rn) = None
            \<and> snd (CancelSender ax cl (fst (CancelPreparer ax cl rg wn rn))) = Some err)
       \<or> (\<exists>err. ae = NewErrorWithError ax err ''logic/WorkflowRunsClient'' ''Cancel''
                      ''Failure responding to request''
            \<and> snd (CancelPreparer ax cl rg wn rn) = None
            \<and> snd (CancelSender ax cl (fst (CancelPreparer ax cl rg wn rn))) = None
            \<and> snd (CancelResponder ax cl
                      (fst (CancelSender ax cl (fst (CancelPreparer ax cl rg wn rn)))))
                = Some err))
   \<and> (\<forall>ae. snd (WorkflowRunsClient_Get ax cl rg wn rn) = Some ae \<longrightarrow>
      (\<exists>err. ae = NewErrorWithError ax err ''logic/WorkflowRunsClient'' ''Get''
                      ''Failure preparing request''
            \<and> snd (GetPreparer ax cl rg wn rn) = Some err)
       \<or> (\<exists>err. ae = NewErrorWithError ax err ''logic/WorkflowRunsClient'' ''Get''
                      ''Failure sending request''
            \<and> snd (GetPreparer ax cl rg wn rn) = None
            \<and> snd (GetSender ax cl (fst (GetPreparer ax cl rg wn rn))) = Some err)
       \<or> (\<exists>err. ae = NewErrorWithError ax err ''logic/WorkflowRunsClient'' ''Get''
                      ''Failure responding to request''
            \<and> snd (GetPreparer ax cl rg wn rn) = None
            \<and> snd (GetSender ax cl (fst (GetPreparer ax cl rg wn rn))) = None
            \<and> snd (GetResponder ax cl
                      (fst (GetSender ax cl (fst (GetPreparer ax cl rg wn rn)))))
                = Some err))
   \<and> (\<forall>ae. snd (WorkflowRunsClient_List ax cl rg wn tp fl) = Some ae \<longrightarrow>
      (\<exists>err. ae = NewErrorWithError ax err ''logic/WorkflowRunsClient'' ''List''
                      ''Failure preparing request''
            \<and> snd (ListPreparer ax cl rg wn tp fl) = Some err)
       \<or> (\<exists>err. ae = NewErrorWithError ax err ''logic/WorkflowRunsClient'' ''List''
                      ''Failure sending request''
            \<and> snd (ListPreparer ax cl rg wn tp fl) = None
            \<and> snd (ListSender ax cl (fst (ListPreparer ax cl rg wn tp fl))) = Some err)
       \<or> (\<exists>err. ae = NewErrorWithError ax err ''logic/WorkflowRunsClient'' ''List''
                      ''Failure responding to request''
            \<and> snd (ListPreparer ax cl rg wn tp fl) = None
            \<and> snd (ListSender ax cl (fst (ListPreparer ax cl rg wn tp fl))) = None
            \<and> snd (ListResponder ax cl
                      (fst (ListSender ax cl (fst (ListPreparer ax cl rg wn tp fl)))))
                = Some err))"
  by (intro conjI allI impI; erule Cancel_error Get_error List_error)

theorem WorkflowRunsClient_errors_wrapped_witness:
  "snd (WorkflowRunsClient_Cancel (sampleAutorest False True False)
          \<lparr>BaseURI = ''https://management.azure.com'', logic_SubscriptionID = ''sub''\<rparr>
          ''group'' ''flow'' ''run-1'')
     = Some (DetailedError (Cause ''connection refused'') ''logic/WorkflowRunsClient''
               ''Cancel'' ''Failure sending request'')
   \<and> snd (WorkflowRunsClient_Get (sampleAutorest False False True)
          \<lparr>BaseURI = ''https://management.azure.com'', logic_SubscriptionID = ''sub''\<rparr>
          ''group'' ''flow'' ''run-1'')
     = Some (DetailedError (Cause ''status 500'') ''logic/WorkflowRunsClient''
               ''Get'' ''Failure responding to request'')
   \<and> snd (WorkflowRunsClient_List (sampleAutorest True False False)
          \<lparr>BaseURI = ''https://management.azure.com'', logic_SubscriptionID = ''sub''\<rparr>
          ''group'' ''flow'' (Some 10) ''status eq 1'')
     = Some (DetailedError (Cause ''no request'') ''logic/WorkflowRunsClient''
               ''List'' ''Failure preparing request'')"
  using
    WorkflowRunsClient_errors_wrapped
      [of "sampleAutorest False True False"
          "\<lparr>BaseURI = ''https://management.azure.com'', logic_SubscriptionID = ''sub''\<rparr>"
          "''group''" "''flow''" "''run-1''" "Some 10" "''status eq 1''"]
    WorkflowRunsClient_errors_wrapped
      [of "sampleAutorest False False True"
          "\<lparr>BaseURI = ''https://management.azure.com'', logic_SubscriptionID = ''sub''\<rparr>"
          "''group''" "''flow''" "''run-1''" "Some 10" "''status eq 1''"]
    WorkflowRunsClient_errors_wrapped
      [of "sampleAutorest True False False"
          "\<lparr>BaseURI = ''https://management.azure.com'', logic_SubscriptionID = ''sub''\<rparr>"
          "''group''" "''flow''" "''run-1''" "Some 10" "''status eq 1''"]
  by (simp add: sampleAutorest_def WorkflowRunsClient_Cancel_def WorkflowRunsClient_Get_def
      WorkflowRunsClient_List_def CancelPreparer_def CancelSender_def CancelResponder_def
      GetPreparer_def GetSender_def GetResponder_def ListPreparer_def ListSender_def
      ListResponder_def Let_def)


end
